theory Spec2Isabelle
  imports Main "HOL-Library.Sublist" "HOL-Library.Word"
begin

unbundle bit_operations_syntax

section \<open>Strings and the library calls that are modelled exactly\<close>

text \<open>
  A Go \<open>string\<close> is a sequence of bytes, here a \<open>char list\<close>. The three functions of
  package \<open>strings\<close> that the step definitions call are modelled on bytes; every cutset and
  every delimiter the code passes is ASCII, so bytes and runes agree.
\<close>

definition backtick :: char where
  "backtick = CHR 0x60"

definition newline :: char where
  "newline = CHR 0x0A"

text \<open>
  \<open>strings.Replace(s, old, new, n)\<close> for \<open>n \<ge> 0\<close> and a non-empty \<open>old\<close>: the first
  \<open>n\<close> non-overlapping occurrences of \<open>old\<close>, scanning from the left, are replaced.
  (With an empty \<open>old\<close> Go inserts \<open>new\<close> at rune boundaries; the only call site,
  in \<open>ReplaceScopeVariables\<close>, passes a whole regular-expression match, which has at
  least five bytes, and for an empty \<open>old\<close> this model returns \<open>s\<close>.)
\<close>

function strings_Replace :: "string \<Rightarrow> string \<Rightarrow> string \<Rightarrow> nat \<Rightarrow> string" where
  "strings_Replace s old new n =
     (if n = 0 \<or> old = [] \<or> s = [] then s
      else if prefix old s then new @ strings_Replace (drop (length old) s) old new (n - 1)
      else hd s # strings_Replace (tl s) old new n)"
  by pat_completeness auto
termination
  by (relation "measure (\<lambda>(s, old, new, n). length s)") (auto simp: neq_Nil_conv)

declare strings_Replace.simps [simp del]

text \<open>\<open>strings.Contains(s, substr)\<close>.\<close>

fun strings_Contains :: "string \<Rightarrow> string \<Rightarrow> bool" where
  "strings_Contains [] substr = (substr = [])"
| "strings_Contains (c # cs) substr = (prefix substr (c # cs) \<or> strings_Contains cs substr)"

text \<open>\<open>strings.Trim(s, cutset)\<close>: leading and trailing bytes of the cutset are removed.\<close>

definition strings_Trim :: "string \<Rightarrow> string \<Rightarrow> string" where
  "strings_Trim s cutset =
     rev (dropWhile (\<lambda>c. c \<in> set cutset) (rev (dropWhile (\<lambda>c. c \<in> set cutset) s)))"

section \<open>The scope store and substitution\<close>

text \<open>
  \<open>ctx.scope\<close> is a \<open>map[string]string\<close>. Reading a key that is absent yields the zero
  value of the element type, the empty string.
\<close>

type_synonym strmap = "string \<rightharpoonup> string"

definition map_index :: "strmap \<Rightarrow> string \<Rightarrow> string" where
  "map_index m k = (case m k of None \<Rightarrow> [] | Some v \<Rightarrow> v)"

text \<open>
  \<open>ReplaceScopeVariables\<close> compiles the pattern \<open>`##(.*?)`\<close> and calls
  \<open>FindStringSubmatch\<close>. Go's \<open>regexp\<close> returns the leftmost match and, among the matches
  that start there, the one a backtracking engine finds first. For this pattern: a match
  starts at a position where the three bytes \<open>`##\<close> stand; the lazy group \<open>(.*?)\<close> then takes
  as few bytes as possible, none of them a newline (\<open>.\<close> does not match \<open>\n\<close>), up to the
  next backtick. \<open>lazy_group\<close> scans the text after \<open>`##\<close>: it returns the group and the
  text behind the closing backtick, or \<open>None\<close> when a newline or the end of the text comes
  before a backtick.
\<close>

fun lazy_group :: "string \<Rightarrow> (string \<times> string) option" where
  "lazy_group [] = None"
| "lazy_group (c # cs) =
     (if c = backtick then Some ([], cs)
      else if c = newline then None
      else (case lazy_group cs of None \<Rightarrow> None | Some (k, r) \<Rightarrow> Some (c # k, r)))"

definition match_here :: "string \<Rightarrow> (string \<times> string) option" where
  "match_here s =
     (if prefix [backtick, CHR ''#'', CHR ''#''] s then lazy_group (drop 3 s) else None)"

text \<open>
  The result of \<open>FindStringSubmatch\<close>: the empty slice when nothing matches, otherwise
  the slice of the whole match and of the group.
\<close>

fun FindStringSubmatch :: "string \<Rightarrow> string list" where
  "FindStringSubmatch [] = []"
| "FindStringSubmatch (c # cs) =
     (case match_here (c # cs) of
        Some (k, r) \<Rightarrow> [[backtick, CHR ''#'', CHR ''#''] @ k @ [backtick], k]
      | None \<Rightarrow> FindStringSubmatch cs)"

definition ReplaceScopeVariables :: "strmap \<Rightarrow> string \<Rightarrow> string" where
  "ReplaceScopeVariables scp data =
     (let matches = FindStringSubmatch data in
      if length matches < 1 \<or> length (matches ! 1) < 1 then data
      else
        let dataToReplace = matches ! 0;
            scopeKey = matches ! 1
        in strings_Replace data dataToReplace (map_index scp scopeKey) 1)"

text \<open>A reference to the key \<open>k\<close> as it is written in a step argument: \<open>`##k`\<close>.\<close>

definition ref :: "string \<Rightarrow> string" where
  "ref k = [backtick, CHR ''#'', CHR ''#''] @ k @ [backtick]"

section \<open>Values, errors and outcomes\<close>

text \<open>
  The dynamic values an \<open>interface{}\<close> holds in the JSON steps. \<open>json.Unmarshal\<close> into an
  \<open>interface{}\<close> produces \<open>nil\<close>, \<open>bool\<close>, \<open>float64\<close>, \<open>string\<close>, \<open>[]interface{}\<close> and
  \<open>map[string]interface{}\<close>; \<open>int32\<close> and \<open>int64\<close> are there because
  \<open>TheJSONPathShouldHaveValue\<close> has cases for them. A \<open>float64\<close> is its 64 bits.
\<close>

datatype gval =
    GNil
  | GBool bool
  | GFloat64 "64 word"
  | GInt32 "32 word"
  | GInt64 "64 word"
  | GString string
  | GSlice "gval list"
  | GMap "(string \<times> gval) list"

text \<open>The kinds of package \<open>reflect\<close> that these values have.\<close>

datatype kind =
  reflect_Invalid | reflect_Bool | reflect_Int32 | reflect_Int64 | reflect_Float64
  | reflect_String | reflect_Slice | reflect_Map

text \<open>
  \<open>reflect.TypeOf(v)\<close> is the nil \<open>Type\<close> for a nil interface, and calling \<open>Kind()\<close> on it
  dereferences nil: \<open>TypeOf_Kind\<close> is \<open>None\<close> there. \<open>reflect.ValueOf(v).Kind()\<close> is
  \<open>Invalid\<close> for a nil interface and does not panic.
\<close>

fun TypeOf_Kind :: "gval \<Rightarrow> kind option" where
  "TypeOf_Kind GNil = None"
| "TypeOf_Kind (GBool b) = Some reflect_Bool"
| "TypeOf_Kind (GFloat64 f) = Some reflect_Float64"
| "TypeOf_Kind (GInt32 i) = Some reflect_Int32"
| "TypeOf_Kind (GInt64 i) = Some reflect_Int64"
| "TypeOf_Kind (GString s) = Some reflect_String"
| "TypeOf_Kind (GSlice xs) = Some reflect_Slice"
| "TypeOf_Kind (GMap kvs) = Some reflect_Map"

definition ValueOf_Kind :: "gval \<Rightarrow> kind" where
  "ValueOf_Kind v = (case TypeOf_Kind v of None \<Rightarrow> reflect_Invalid | Some k \<Rightarrow> k)"

text \<open>
  \<open>==\<close> on two \<open>float64\<close>: a NaN equals nothing, the two zeros are equal, every other
  value equals itself only.
\<close>

definition f64_is_nan :: "64 word \<Rightarrow> bool" where
  "f64_is_nan w \<longleftrightarrow>
     w AND 0x7FF0000000000000 = 0x7FF0000000000000 \<and> w AND 0x000FFFFFFFFFFFFF \<noteq> 0"

definition f64_eq :: "64 word \<Rightarrow> 64 word \<Rightarrow> bool" where
  "f64_eq a b \<longleftrightarrow>
     \<not> f64_is_nan a \<and> \<not> f64_is_nan b \<and>
     (a = b \<or> (a AND 0x7FFFFFFFFFFFFFFF = 0 \<and> b AND 0x7FFFFFFFFFFFFFFF = 0))"

text \<open>
  \<open>==\<close> on two interface values: values of different dynamic types are unequal; values
  of one comparable type are compared; two slices or two maps make the comparison panic
  (\<open>None\<close>).
\<close>

fun iface_eq :: "gval \<Rightarrow> gval \<Rightarrow> bool option" where
  "iface_eq GNil GNil = Some True"
| "iface_eq (GBool a) (GBool b) = Some (a = b)"
| "iface_eq (GFloat64 a) (GFloat64 b) = Some (f64_eq a b)"
| "iface_eq (GInt32 a) (GInt32 b) = Some (a = b)"
| "iface_eq (GInt64 a) (GInt64 b) = Some (a = b)"
| "iface_eq (GString a) (GString b) = Some (a = b)"
| "iface_eq (GSlice a) (GSlice b) = None"
| "iface_eq (GMap a) (GMap b) = None"
| "iface_eq a b = Some False"

text \<open>
  An \<open>error\<close> is either one that a library call returned (\<open>External\<close>, with its message)
  or one that a step builds with \<open>fmt.Errorf\<close>: one constructor for each format string of
  the source, carrying the arguments of the format in the order of the source.
\<close>

datatype error =
    External string
  | ErrStatusCode int int string
  | ErrJsonPathValue gval gval
  | ErrPathNoMatch gval string
  | ErrPathNotPresent string
  | ErrNotAnArray string gval
  | ErrCount gval int int
  | ErrJsonMismatch string string
  | ErrNotContain string string
  | ErrBodyNoMatch string string
  | ErrSchemaMissing string
  | ErrSchemaOpen error
  | ErrSchemaInvalid string "string list"
  | ErrHeaderValue string string
  | ErrScopeValue string string

text \<open>
  What a step does: it returns \<open>nil\<close> (\<open>Return None\<close>), returns an error, or panics.
\<close>

datatype panic_value = NilDereference | IndexOutOfRange | Uncomparable | PanicError error

datatype step_result = Return "error option" | Panic panic_value

section \<open>The context and the world around it\<close>

text \<open>
  An \<open>*http.Request\<close> as far as the steps touch it, and an \<open>*http.Response\<close> as far as
  they read it: \<open>Header_Get\<close> is \<open>resp.Header.Get\<close>, \<open>ReadAll\<close> is what
  \<open>ioutil.ReadAll(resp.Body)\<close> yields.
\<close>

record Request =
  Method :: string
  URL :: string
  Header :: strmap
  RequestBody :: string

record Response =
  resp_StatusCode :: int
  Header_Get :: "string \<Rightarrow> string"
  ReadAll :: "error + string"

record ApiResponse =
  StatusCode :: int
  Body :: string
  ResponseObj :: Response

text \<open>
  \<open>ApiContext\<close>. The two pointer fields \<open>lastResponse\<close> and \<open>lastRequest\<close> are options,
  \<open>None\<close> for nil. The field \<open>client\<close> is the runtime's \<open>client_Do\<close> below.
\<close>

record ApiContext =
  baseURL :: string
  jSONSchemasPath :: string
  debug :: bool
  headers :: strmap
  queryParams :: strmap
  lastResponse :: "ApiResponse option"
  lastRequest :: "Request option"
  scope :: strmap

text \<open>A \<open>*godog.Table\<close>: its rows, each the values of its cells.\<close>

type_synonym table = "string list list"

text \<open>
  Everything the steps call outside this package, taken as a parameter: the JSON decoder,
  the JSON-path evaluator, \<open>strconv\<close>, \<open>regexp.MatchString\<close>, \<open>fmt.Sprint\<close>, the file
  system, the schema validator (its result: \<open>Valid()\<close> and \<open>Errors()\<close> as strings), the HTTP
  client, the multipart writer over its buffer, and the order in which a \<open>range\<close> statement
  visits a map. \<open>isEqualJson\<close> is a function of this package whose file is not among the
  sources; it is a parameter as well.
\<close>

record runtime =
  json_Unmarshal :: "string \<Rightarrow> error + gval"
  jsonpath_Get :: "string \<Rightarrow> gval \<Rightarrow> error + gval"
  strconv_ParseBool :: "string \<Rightarrow> error + bool"
  strconv_ParseFloat :: "string \<Rightarrow> error + 64 word"
  strconv_ParseInt :: "string \<Rightarrow> error + 64 word"
  regexp_MatchString :: "string \<Rightarrow> string \<Rightarrow> error + bool"
  fmt_Sprint :: "gval \<Rightarrow> string"
  isEqualJson :: "string \<Rightarrow> string \<Rightarrow> error + bool"
  os_IsNotExist_Stat :: "string \<Rightarrow> bool"
  ioutil_ReadFile :: "string \<Rightarrow> error + string"
  gojsonschema_Validate :: "string \<Rightarrow> string \<Rightarrow> error + (bool \<times> string list)"
  http_NewRequest :: "string \<Rightarrow> string \<Rightarrow> string \<Rightarrow> error + Request"
  CanonicalHeaderKey :: "string \<Rightarrow> string"
  client_Do :: "Request \<Rightarrow> error + Response"
  map_range :: "strmap \<Rightarrow> (string \<times> string) list"
  os_Open :: "string \<Rightarrow> error + string"
  multipart_WriteField :: "string \<Rightarrow> string \<Rightarrow> string \<Rightarrow> error + string"
  multipart_CreateFormFile :: "string \<Rightarrow> string \<Rightarrow> string \<Rightarrow> error + string"
  io_Copy :: "string \<Rightarrow> string \<Rightarrow> error + string"
  multipart_FormDataContentType :: "string \<Rightarrow> string"
  multipart_Close :: "string \<Rightarrow> error + string"

text \<open>\<open>New(baseURL)\<close>; \<open>defaultSchemasPath\<close> is \<open>"schemas"\<close>.\<close>

definition defaultSchemasPath :: string where
  "defaultSchemasPath = ''schemas''"

definition New :: "string \<Rightarrow> ApiContext" where
  "New url =
     \<lparr>baseURL = url, jSONSchemasPath = defaultSchemasPath, debug = False,
      headers = Map.empty, queryParams = Map.empty, lastResponse = None,
      lastRequest = None, scope = Map.empty\<rparr>"

section \<open>Lifecycle and accumulators\<close>

text \<open>\<open>reset\<close>, registered with \<open>BeforeScenario\<close>; its argument is not used.\<close>

definition reset :: "ApiContext \<Rightarrow> ApiContext" where
  "reset ctx =
     ctx\<lparr>headers := Map.empty, queryParams := Map.empty, lastResponse := None,
         lastRequest := None\<rparr>"

text \<open>
  The table steps run \<open>for i := 0; i < len(dt.Rows); i++\<close>; \<open>Cells[0]\<close> and \<open>Cells[1]\<close>
  are both read before the map is written, so a row with fewer than two cells panics with
  the entries of the rows before it already stored.
\<close>

fun ISetHeadersTo :: "table \<Rightarrow> ApiContext \<Rightarrow> step_result \<times> ApiContext" where
  "ISetHeadersTo [] ctx = (Return None, ctx)"
| "ISetHeadersTo (row # rows) ctx =
     (if length row < 2 then (Panic IndexOutOfRange, ctx)
      else ISetHeadersTo rows
             (ctx\<lparr>headers := (headers ctx)(row ! 0 \<mapsto> ReplaceScopeVariables (scope ctx) (row ! 1))\<rparr>))"

definition ISetHeaderWithValue :: "string \<Rightarrow> string \<Rightarrow> ApiContext \<Rightarrow> step_result \<times> ApiContext" where
  "ISetHeaderWithValue name val ctx = (Return None, ctx\<lparr>headers := (headers ctx)(name \<mapsto> val)\<rparr>)"

definition ISetQueryParamWithValue :: "string \<Rightarrow> string \<Rightarrow> ApiContext \<Rightarrow> step_result \<times> ApiContext" where
  "ISetQueryParamWithValue name val ctx =
     (Return None,
      ctx\<lparr>queryParams := (queryParams ctx)(name \<mapsto> ReplaceScopeVariables (scope ctx) val)\<rparr>)"

fun ISetQueryParamsTo :: "table \<Rightarrow> ApiContext \<Rightarrow> step_result \<times> ApiContext" where
  "ISetQueryParamsTo [] ctx = (Return None, ctx)"
| "ISetQueryParamsTo (row # rows) ctx =
     (if length row < 2 then (Panic IndexOutOfRange, ctx)
      else ISetQueryParamsTo rows
             (ctx\<lparr>queryParams :=
                    (queryParams ctx)(row ! 0 \<mapsto> ReplaceScopeVariables (scope ctx) (row ! 1))\<rparr>))"

definition StoreScopeData :: "string \<Rightarrow> string \<Rightarrow> ApiContext \<Rightarrow> step_result \<times> ApiContext" where
  "StoreScopeData scopeKeyName val ctx =
     (Return None, ctx\<lparr>scope := (scope ctx)(scopeKeyName \<mapsto> val)\<rparr>)"

definition TheScopeVariableShouldHaveValue :: "string \<Rightarrow> string \<Rightarrow> ApiContext \<Rightarrow> step_result" where
  "TheScopeVariableShouldHaveValue scopeKeyName expectedValue ctx =
     (if map_index (scope ctx) scopeKeyName \<noteq> expectedValue
      then Return (Some (ErrScopeValue expectedValue (map_index (scope ctx) scopeKeyName)))
      else Return None)"

section \<open>Assertion steps\<close>

text \<open>
  No assertion step assigns to a field of the context, so each returns its outcome only.
  Reading \<open>ctx.lastResponse.Body\<close> or \<open>.StatusCode\<close> through a nil \<open>lastResponse\<close> is a
  nil-pointer dereference, a run-time panic.
\<close>

definition TheResponseCodeShouldBe :: "int \<Rightarrow> ApiContext \<Rightarrow> step_result" where
  "TheResponseCodeShouldBe statusCode ctx =
     (case lastResponse ctx of
        None \<Rightarrow> Panic NilDereference
      | Some r \<Rightarrow>
          if statusCode \<noteq> StatusCode r
          then Return (Some (ErrStatusCode statusCode (StatusCode r) (Body r)))
          else Return None)"

definition TheResponseShouldBeAValidJSON :: "runtime \<Rightarrow> ApiContext \<Rightarrow> step_result" where
  "TheResponseShouldBeAValidJSON rt ctx =
     (case lastResponse ctx of
        None \<Rightarrow> Panic NilDereference
      | Some r \<Rightarrow>
          (case json_Unmarshal rt (Body r) of
             Inl err \<Rightarrow> Return (Some err)
           | Inr jsonData \<Rightarrow> Return None))"

text \<open>
  The \<open>switch\<close> of \<open>TheJSONPathShouldHaveValue\<close> on the kind of the actual value: the
  expected text parsed, or the error of the parser. \<open>ParseInt(s, 10, 64)\<close> yields an
  \<open>int64\<close> in both integer cases.
\<close>

definition parse_expected :: "runtime \<Rightarrow> kind \<Rightarrow> string \<Rightarrow> error + gval" where
  "parse_expected rt k expectedValue =
     (case k of
        reflect_Bool \<Rightarrow> map_sum id GBool (strconv_ParseBool rt expectedValue)
      | reflect_Float64 \<Rightarrow> map_sum id GFloat64 (strconv_ParseFloat rt expectedValue)
      | reflect_Int32 \<Rightarrow> map_sum id GInt64 (strconv_ParseInt rt expectedValue)
      | reflect_Int64 \<Rightarrow> map_sum id GInt64 (strconv_ParseInt rt expectedValue)
      | _ \<Rightarrow> Inr (GString expectedValue))"

definition TheJSONPathShouldHaveValue ::
  "runtime \<Rightarrow> string \<Rightarrow> string \<Rightarrow> ApiContext \<Rightarrow> step_result" where
  "TheJSONPathShouldHaveValue rt pathExpr expectedValue0 ctx =
     (let expectedValue = ReplaceScopeVariables (scope ctx) expectedValue0 in
      case lastResponse ctx of
        None \<Rightarrow> Panic NilDereference
      | Some r \<Rightarrow>
          (case json_Unmarshal rt (Body r) of
             Inl err \<Rightarrow> Return (Some err)
           | Inr jsonData \<Rightarrow>
               (case jsonpath_Get rt pathExpr jsonData of
                  Inl err \<Rightarrow> Return (Some err)
                | Inr actualValue \<Rightarrow>
                    (case TypeOf_Kind actualValue of
                       None \<Rightarrow> Panic NilDereference
                     | Some k \<Rightarrow>
                         (case parse_expected rt k expectedValue of
                            Inl err \<Rightarrow> Return (Some err)
                          | Inr expectedParsedValue \<Rightarrow>
                              (case iface_eq actualValue expectedParsedValue of
                                 None \<Rightarrow> Panic Uncomparable
                               | Some eq \<Rightarrow>
                                   if \<not> eq
                                   then Return (Some (ErrJsonPathValue expectedParsedValue actualValue))
                                   else Return None))))))"

definition TheJSONPathShouldMatch ::
  "runtime \<Rightarrow> string \<Rightarrow> string \<Rightarrow> ApiContext \<Rightarrow> step_result" where
  "TheJSONPathShouldMatch rt pathExpr pattern ctx =
     (case lastResponse ctx of
        None \<Rightarrow> Panic NilDereference
      | Some r \<Rightarrow>
          (case json_Unmarshal rt (Body r) of
             Inl err \<Rightarrow> Return (Some err)
           | Inr jsonData \<Rightarrow>
               (case jsonpath_Get rt pathExpr jsonData of
                  Inl err \<Rightarrow> Return (Some err)
                | Inr val \<Rightarrow>
                    (case (case val of
                             GString v \<Rightarrow> regexp_MatchString rt pattern v
                           | v \<Rightarrow> regexp_MatchString rt pattern (fmt_Sprint rt v)) of
                       Inl err \<Rightarrow> Return (Some err)
                     | Inr match \<Rightarrow>
                         if \<not> match then Return (Some (ErrPathNoMatch val pattern))
                         else Return None))))"

definition TheJSONPathShouldBePresent :: "runtime \<Rightarrow> string \<Rightarrow> ApiContext \<Rightarrow> step_result" where
  "TheJSONPathShouldBePresent rt pathExpr ctx =
     (case lastResponse ctx of
        None \<Rightarrow> Panic NilDereference
      | Some r \<Rightarrow>
          (case json_Unmarshal rt (Body r) of
             Inl err \<Rightarrow> Return (Some err)
           | Inr jsonData \<Rightarrow>
               (case jsonpath_Get rt pathExpr jsonData of
                  Inl err \<Rightarrow> Return (Some err)
                | Inr val \<Rightarrow>
                    if val = GNil then Return (Some (ErrPathNotPresent pathExpr))
                    else Return None)))"

text \<open>
  \<open>s.Len()\<close> of a slice and \<open>expectedCount\<close> are both \<open>int\<close>; the length of a slice is
  never negative and fits the type, so the comparison is the one of the integers.
  (\<open>Len\<close> panics on a value without a length; the step calls it on slices only.)
\<close>

fun reflect_Len :: "gval \<Rightarrow> int" where
  "reflect_Len (GSlice s) = int (length s)"
| "reflect_Len (GMap m) = int (length m)"
| "reflect_Len (GString s) = int (length s)"
| "reflect_Len v = 0"

definition TheJSONPathHaveCount :: "runtime \<Rightarrow> string \<Rightarrow> int \<Rightarrow> ApiContext \<Rightarrow> step_result" where
  "TheJSONPathHaveCount rt pathExpr expectedCount ctx =
     (case lastResponse ctx of
        None \<Rightarrow> Panic NilDereference
      | Some r \<Rightarrow>
          (case json_Unmarshal rt (Body r) of
             Inl err \<Rightarrow> Return (Some err)
           | Inr jsonData \<Rightarrow>
               (case jsonpath_Get rt pathExpr jsonData of
                  Inl err \<Rightarrow> Return (Some err)
                | Inr val \<Rightarrow>
                    if ValueOf_Kind val \<noteq> reflect_Slice
                    then Return (Some (ErrNotAnArray pathExpr val))
                    else if reflect_Len val \<noteq> expectedCount
                    then Return (Some (ErrCount val expectedCount (reflect_Len val)))
                    else Return None)))"

text \<open>
  \<open>TheResponseShouldMatchJSON\<close> takes a \<open>*godog.DocString\<close>; the argument here is its
  \<open>Content\<close>.
\<close>

definition TheResponseShouldMatchJSON :: "runtime \<Rightarrow> string \<Rightarrow> ApiContext \<Rightarrow> step_result" where
  "TheResponseShouldMatchJSON rt body ctx =
     (case lastResponse ctx of
        None \<Rightarrow> Panic NilDereference
      | Some r \<Rightarrow>
          (let actual = strings_Trim (Body r) [newline];
               expected = ReplaceScopeVariables (scope ctx) body
           in case isEqualJson rt actual expected of
                Inl err \<Rightarrow> Return (Some err)
              | Inr match \<Rightarrow>
                  if \<not> match then Return (Some (ErrJsonMismatch expected actual))
                  else Return None))"

definition TheResponseBodyShouldContain :: "string \<Rightarrow> ApiContext \<Rightarrow> step_result" where
  "TheResponseBodyShouldContain s ctx =
     (case lastResponse ctx of
        None \<Rightarrow> Panic NilDereference
      | Some r \<Rightarrow>
          (let bodyContent = strings_Trim (Body r) [newline] in
           if \<not> strings_Contains bodyContent (ReplaceScopeVariables (scope ctx) s)
           then Return (Some (ErrNotContain bodyContent s))
           else Return None))"

definition TheResponseBodyShouldMatch :: "runtime \<Rightarrow> string \<Rightarrow> ApiContext \<Rightarrow> step_result" where
  "TheResponseBodyShouldMatch rt pattern ctx =
     (case lastResponse ctx of
        None \<Rightarrow> Panic NilDereference
      | Some r \<Rightarrow>
          (let bodyContents = Body r in
           case regexp_MatchString rt pattern bodyContents of
             Inl err \<Rightarrow> Return (Some err)
           | Inr match \<Rightarrow>
               if \<not> match then Return (Some (ErrBodyNoMatch bodyContents pattern))
               else Return None))"

text \<open>
  The schema step looks for the schema file and reads it before it touches
  \<open>ctx.lastResponse\<close> (in the argument of \<open>NewStringLoader\<close>).
\<close>

definition TheResponseShouldMatchJsonSchema :: "runtime \<Rightarrow> string \<Rightarrow> ApiContext \<Rightarrow> step_result" where
  "TheResponseShouldMatchJsonSchema rt path0 ctx =
     (let path = strings_Trim path0 ''/'';
          schemaPath = jSONSchemasPath ctx @ ''/'' @ path
      in if os_IsNotExist_Stat rt schemaPath then Return (Some (ErrSchemaMissing schemaPath))
         else
           (case ioutil_ReadFile rt schemaPath of
              Inl err \<Rightarrow> Return (Some (ErrSchemaOpen err))
            | Inr schemaContents \<Rightarrow>
                (case lastResponse ctx of
                   None \<Rightarrow> Panic NilDereference
                 | Some r \<Rightarrow>
                     (case gojsonschema_Validate rt schemaContents (Body r) of
                        Inl err \<Rightarrow> Return (Some err)
                      | Inr (valid, schemaErrors) \<Rightarrow>
                          if \<not> valid then Return (Some (ErrSchemaInvalid path schemaErrors))
                          else Return None))))"

definition TheResponseHeaderShouldHaveValue :: "string \<Rightarrow> string \<Rightarrow> ApiContext \<Rightarrow> step_result" where
  "TheResponseHeaderShouldHaveValue name expectedValue ctx =
     (case lastResponse ctx of
        None \<Rightarrow> Panic NilDereference
      | Some r \<Rightarrow>
          (let actualValue = Header_Get (ResponseObj r) name in
           if actualValue \<noteq> ReplaceScopeVariables (scope ctx) expectedValue
           then Return (Some (ErrHeaderValue expectedValue actualValue))
           else Return None))"

section \<open>Sending requests\<close>

text \<open>
  The three sending steps end with the same statements: the request becomes
  \<open>lastRequest\<close>, it is sent, the body of the response is read, and the response becomes
  \<open>lastResponse\<close>. (\<open>logRequest\<close> and \<open>logResponse\<close> write to the log when \<open>debug\<close> is set
  and change nothing else; the log is not part of this model.)
\<close>

definition send_and_capture :: "runtime \<Rightarrow> Request \<Rightarrow> ApiContext \<Rightarrow> step_result \<times> ApiContext" where
  "send_and_capture rt req ctx0 =
     (let ctx = ctx0\<lparr>lastRequest := Some req\<rparr> in
      case client_Do rt req of
        Inl err \<Rightarrow> (Return (Some err), ctx)
      | Inr resp \<Rightarrow>
          (case ReadAll resp of
             Inl err2 \<Rightarrow> (Return (Some err2), ctx)
           | Inr body \<Rightarrow>
               (Return None,
                ctx\<lparr>lastResponse :=
                      Some \<lparr>StatusCode = resp_StatusCode resp, Body = body, ResponseObj = resp\<rparr>\<rparr>)))"

text \<open>\<open>req.Header.Set(name, value)\<close> on a request that is not nil.\<close>

definition Header_Set :: "runtime \<Rightarrow> string \<Rightarrow> string \<Rightarrow> Request \<Rightarrow> Request" where
  "Header_Set rt name val req = req\<lparr>Header := (Header req)(CanonicalHeaderKey rt name \<mapsto> val)\<rparr>"

text \<open>
  \<open>for name, value := range ctx.headers { req.Header.Set(name, value) }\<close> on a request
  that may be nil: with nothing to visit the loop does nothing; otherwise the first visit
  dereferences \<open>req\<close>.
\<close>

fun header_loop ::
  "runtime \<Rightarrow> (string \<times> string) list \<Rightarrow> Request option \<Rightarrow> panic_value + Request option" where
  "header_loop rt [] req = Inr req"
| "header_loop rt ((name, val) # rest) None = Inl NilDereference"
| "header_loop rt ((name, val) # rest) (Some req) =
     header_loop rt rest (Some (Header_Set rt name val req))"

text \<open>
  \<open>http.NewRequest\<close> returns a request and a nil error, or a nil request and an error.
  \<open>ISendRequestToWithBody\<close> runs the header loop on what it got and looks at the error
  afterwards. Its third argument is the \<open>Content\<close> of the \<open>*godog.DocString\<close>.
  (When the error is nil the request is not, so the last \<open>None\<close> branch below is never
  taken.)
\<close>

definition ISendRequestToWithBody ::
  "runtime \<Rightarrow> string \<Rightarrow> string \<Rightarrow> string \<Rightarrow> ApiContext \<Rightarrow> step_result \<times> ApiContext" where
  "ISendRequestToWithBody rt method uri requestBody ctx =
     (let reqURL = baseURL ctx @ uri;
          jsonBody = ReplaceScopeVariables (scope ctx) requestBody;
          created = http_NewRequest rt method reqURL jsonBody;
          req0 = (case created of Inl e \<Rightarrow> None | Inr r \<Rightarrow> Some r);
          err = (case created of Inl e \<Rightarrow> Some e | Inr r \<Rightarrow> None)
      in case header_loop rt (map_range rt (headers ctx)) req0 of
           Inl p \<Rightarrow> (Panic p, ctx)
         | Inr req1 \<Rightarrow>
             (case err of
                Some e \<Rightarrow> (Return (Some e), ctx)
              | None \<Rightarrow>
                  (case req1 of
                     None \<Rightarrow> (Panic NilDereference, ctx)
                   | Some req \<Rightarrow> send_and_capture rt req ctx)))"




section \<open>A small world for closed instances\<close>

text \<open>
  A runtime that answers as the Go libraries do on the inputs used in the closed
  instances below, and with an error elsewhere: the decoder knows the two documents of
  the JSON-path examples, the path evaluator the root and the four members, the parsers
  the texts \<open>2\<close>, \<open>3.5\<close> and \<open>true\<close> (\<open>2.0\<close> is \<open>0x4000000000000000\<close> and \<open>3.5\<close> is
  \<open>0x400C000000000000\<close> as a \<open>float64\<close>). No file exists, no request can be built or sent,
  and a \<open>range\<close> visits no more than the entry for \<open>Accept\<close>.
\<close>

definition sample_body :: string where
  "sample_body = ''{\"a\":\"a\",\"b\":2,\"c\":3.5,\"d\":true}''"

definition sample_doc :: gval where
  "sample_doc =
     GMap [(''a'', GString ''a''), (''b'', GFloat64 0x4000000000000000),
           (''c'', GFloat64 0x400C000000000000), (''d'', GBool True)]"

definition sample_array :: gval where
  "sample_array = GSlice [GFloat64 0x3FF0000000000000, GFloat64 0x4000000000000000]"

definition sample_runtime :: runtime where
  "sample_runtime =
     \<lparr>json_Unmarshal =
        (\<lambda>s. if s = sample_body then Inr sample_doc
             else if s = ''[1,2]'' then Inr sample_array
             else Inl (External ''invalid character'')),
      jsonpath_Get =
        (\<lambda>p doc. if p = ''$'' then Inr doc
                 else (case doc of
                         GMap kvs \<Rightarrow>
                           (if prefix ''$.'' p
                            then (case map_of kvs (drop 2 p) of
                                    Some v \<Rightarrow> Inr v
                                  | None \<Rightarrow> Inl (External ''unknown key''))
                            else Inl (External ''parsing error''))
                       | _ \<Rightarrow> Inl (External ''unsupported value type''))),
      strconv_ParseBool =
        (\<lambda>s. if s \<in> {''1'', ''t'', ''T'', ''TRUE'', ''true'', ''True''} then Inr True
             else if s \<in> {''0'', ''f'', ''F'', ''FALSE'', ''false'', ''False''} then Inr False
             else Inl (External ''invalid syntax'')),
      strconv_ParseFloat =
        (\<lambda>s. if s = ''2'' then Inr 0x4000000000000000
             else if s = ''3.5'' then Inr 0x400C000000000000
             else Inl (External ''invalid syntax'')),
      strconv_ParseInt =
        (\<lambda>s. if s = ''2'' then Inr 2 else Inl (External ''invalid syntax'')),
      regexp_MatchString = (\<lambda>pattern s. Inr (strings_Contains s pattern)),
      fmt_Sprint = (\<lambda>v. case v of GString s \<Rightarrow> s | _ \<Rightarrow> []),
      isEqualJson = (\<lambda>a b. Inr (a = b)),
      os_IsNotExist_Stat = (\<lambda>path. True),
      ioutil_ReadFile = (\<lambda>path. Inl (External ''no such file or directory'')),
      gojsonschema_Validate = (\<lambda>schema doc. Inr (True, [])),
      http_NewRequest =
        (\<lambda>method url body.
           if method = ''GET'' \<or> method = ''POST''
           then Inr \<lparr>Method = method, URL = url, Header = Map.empty, RequestBody = body\<rparr>
           else Inl (External ''invalid method'')),
      CanonicalHeaderKey = (\<lambda>name. name),
      client_Do = (\<lambda>req. Inl (External ''connection refused'')),
      map_range = (\<lambda>m. case m ''Accept'' of None \<Rightarrow> [] | Some v \<Rightarrow> [(''Accept'', v)]),
      os_Open = (\<lambda>path. Inl (External ''no such file or directory'')),
      multipart_WriteField = (\<lambda>w key val. Inr (w @ key @ ''='' @ val @ '';'')),
      multipart_CreateFormFile = (\<lambda>w key fileName. Inr (w @ key @ ''='' @ fileName @ '':'')),
      io_Copy = (\<lambda>w file. Inr (w @ file @ '';'')),
      multipart_FormDataContentType = (\<lambda>w. ''multipart/form-data; boundary=b''),
      multipart_Close = (\<lambda>w. Inr (w @ ''--b--''))\<rparr>"

text \<open>A context with a stored scope variable and no response yet.\<close>

definition sample_ctx :: ApiContext where
  "sample_ctx = (New ''https://example.com'')\<lparr>scope := [''k'' \<mapsto> ''v'']\<rparr>"

section \<open>The value check in the words of the specification\<close>

text \<open>
  The specification describes the coercion of \<open>TheJSONPathShouldHaveValue\<close> by the type of
  the actual value: a boolean makes the expected text a parsed bool, a floating-point
  number a parsed float, an integer a parsed integer, anything else leaves it a string.
  \<open>coerce_expected\<close> is that description, to be compared with the \<open>switch\<close> of the code.
\<close>

definition coerce_expected :: "runtime \<Rightarrow> gval \<Rightarrow> string \<Rightarrow> error + gval" where
  "coerce_expected rt actual expectedText =
     (case actual of
        GBool b \<Rightarrow> map_sum id GBool (strconv_ParseBool rt expectedText)
      | GFloat64 f \<Rightarrow> map_sum id GFloat64 (strconv_ParseFloat rt expectedText)
      | GInt32 i \<Rightarrow> map_sum id GInt64 (strconv_ParseInt rt expectedText)
      | GInt64 i \<Rightarrow> map_sum id GInt64 (strconv_ParseInt rt expectedText)
      | _ \<Rightarrow> Inr (GString expectedText))"


text \<open>A captured response with the given body.\<close>

definition sample_response :: "string \<Rightarrow> ApiResponse" where
  "sample_response body =
     \<lparr>StatusCode = 200, Body = body,
      ResponseObj = \<lparr>resp_StatusCode = 200, Header_Get = (\<lambda>name. []), ReadAll = Inr body\<rparr>\<rparr>"

section \<open>Substitution: what the scan finds\<close>

lemma lazy_group_found:
  "backtick \<notin> set k \<Longrightarrow> newline \<notin> set k \<Longrightarrow> lazy_group (k @ backtick # post) = Some (k, post)"
  by (induction k) auto

lemma lazy_group_sound:
  "lazy_group s = Some (k, r) \<Longrightarrow> s = k @ backtick # r \<and> newline \<notin> set k"
  by (induction s arbitrary: k) (auto split: if_splits option.splits)

lemma match_here_ref:
  "backtick \<notin> set k \<Longrightarrow> newline \<notin> set k \<Longrightarrow> match_here (ref k @ post) = Some (k, post)"
  by (simp add: match_here_def ref_def lazy_group_found)

lemma match_here_sound:
  "match_here s = Some (k, r) \<Longrightarrow> s = ref k @ r \<and> newline \<notin> set k"
  by (auto simp: match_here_def ref_def prefix_def dest: lazy_group_sound split: if_splits)

text \<open>
  A reference \<open>`##k`\<close> at position \<open>length pre\<close> is the first one when no reference whose
  key is free of newlines starts before it. Then the scan finds it, and the replacement
  replaces it there.
\<close>

lemma Find_first:
  assumes "backtick \<notin> set k" "newline \<notin> set k"
    and "\<forall>pre1 k1 post1. pre @ ref k @ post = pre1 @ ref k1 @ post1 \<and> newline \<notin> set k1
           \<longrightarrow> length pre \<le> length pre1"
  shows "FindStringSubmatch (pre @ ref k @ post) = [ref k, k]"
  using assms(3)
proof (induction pre)
  case Nil
  obtain c cs where e: "ref k @ post = c # cs"
    by (cases "ref k @ post") (auto simp: ref_def)
  from assms(1,2) have "match_here (c # cs) = Some (k, post)"
    using match_here_ref [of k post] e by simp
  then show ?case
    using e by (simp add: ref_def)
next
  case (Cons c pre)
  have none: "match_here (c # pre @ ref k @ post) = None"
  proof (cases "match_here (c # pre @ ref k @ post)")
    case (Some a)
    obtain k1 r where "a = (k1, r)" by (cases a)
    with Some have "(c # pre) @ ref k @ post = [] @ ref k1 @ r \<and> newline \<notin> set k1"
      using match_here_sound [of "c # pre @ ref k @ post" k1 r] by simp
    with Cons.prems have "length (c # pre) \<le> length ([] :: string)" by blast
    then show ?thesis by simp
  qed simp
  have "\<forall>pre1 k1 post1. pre @ ref k @ post = pre1 @ ref k1 @ post1 \<and> newline \<notin> set k1
           \<longrightarrow> length pre \<le> length pre1"
  proof (intro allI impI)
    fix pre1 k1 post1
    assume a: "pre @ ref k @ post = pre1 @ ref k1 @ post1 \<and> newline \<notin> set k1"
    then have "(c # pre) @ ref k @ post = (c # pre1) @ ref k1 @ post1 \<and> newline \<notin> set k1"
      by simp
    with Cons.prems have "length (c # pre) \<le> length (c # pre1)" by blast
    then show "length pre \<le> length pre1" by simp
  qed
  with Cons.IH have "FindStringSubmatch (pre @ ref k @ post) = [ref k, k]" by blast
  with none show ?case by simp
qed

lemma Replace_zero: "strings_Replace s old new 0 = s"
  by (subst strings_Replace.simps) simp

lemma Replace_at_first:
  assumes "newline \<notin> set k"
    and "\<forall>pre1 k1 post1. pre @ ref k @ post = pre1 @ ref k1 @ post1 \<and> newline \<notin> set k1
           \<longrightarrow> length pre \<le> length pre1"
  shows "strings_Replace (pre @ ref k @ post) (ref k) new (Suc 0) = pre @ new @ post"
  using assms(2)
proof (induction pre)
  case Nil
  have "ref k \<noteq> []" by (simp add: ref_def)
  then show ?case by (subst strings_Replace.simps) (simp add: Replace_zero)
next
  case (Cons c pre)
  have np: "\<not> prefix (ref k) (c # pre @ ref k @ post)"
  proof
    assume "prefix (ref k) (c # pre @ ref k @ post)"
    then obtain r where "(c # pre) @ ref k @ post = [] @ ref k @ r"
      by (auto simp: prefix_def)
    with assms(1) Cons.prems have "length (c # pre) \<le> length ([] :: string)" by blast
    then show False by simp
  qed
  have "\<forall>pre1 k1 post1. pre @ ref k @ post = pre1 @ ref k1 @ post1 \<and> newline \<notin> set k1
           \<longrightarrow> length pre \<le> length pre1"
  proof (intro allI impI)
    fix pre1 k1 post1
    assume a: "pre @ ref k @ post = pre1 @ ref k1 @ post1 \<and> newline \<notin> set k1"
    then have "(c # pre) @ ref k @ post = (c # pre1) @ ref k1 @ post1 \<and> newline \<notin> set k1"
      by simp
    with Cons.prems have "length (c # pre) \<le> length (c # pre1)" by blast
    then show "length pre \<le> length pre1" by simp
  qed
  with Cons.IH have "strings_Replace (pre @ ref k @ post) (ref k) new (Suc 0) = pre @ new @ post"
    by blast
  moreover have "ref k \<noteq> []" by (simp add: ref_def)
  ultimately show ?case
    using np by (subst strings_Replace.simps) simp
qed

lemma resolve_first:
  assumes "backtick \<notin> set k" "newline \<notin> set k"
    and "\<forall>pre1 k1 post1. pre @ ref k @ post = pre1 @ ref k1 @ post1 \<and> newline \<notin> set k1
           \<longrightarrow> length pre \<le> length pre1"
  shows "ReplaceScopeVariables scp (pre @ ref k @ post) =
           (if k = [] then pre @ ref k @ post else pre @ map_index scp k @ post)"
  using Find_first [OF assms] Replace_at_first [OF assms(2,3)]
  by (simp add: ReplaceScopeVariables_def Let_def)

lemma Find_sound:
  "FindStringSubmatch s = m # ms \<Longrightarrow> \<exists>pre k post. s = pre @ ref k @ post \<and> newline \<notin> set k"
proof (induction s)
  case Nil
  then show ?case by simp
next
  case (Cons c s)
  show ?case
  proof (cases "match_here (c # s)")
    case None
    with Cons obtain pre k post where "s = pre @ ref k @ post \<and> newline \<notin> set k" by auto
    then have "c # s = (c # pre) @ ref k @ post \<and> newline \<notin> set k" by simp
    then show ?thesis by blast
  next
    case (Some a)
    obtain k r where "a = (k, r)" by (cases a)
    with Some have "c # s = [] @ ref k @ r \<and> newline \<notin> set k"
      using match_here_sound [of "c # s" k r] by simp
    then show ?thesis by blast
  qed
qed

lemma resolve_none:
  assumes "\<forall>pre k post. data = pre @ ref k @ post \<longrightarrow> newline \<in> set k"
  shows "ReplaceScopeVariables scp data = data"
proof (cases "FindStringSubmatch data")
  case Nil
  then show ?thesis by (simp add: ReplaceScopeVariables_def)
next
  case (Cons m ms)
  then have "\<exists>pre k post. data = pre @ ref k @ post \<and> newline \<notin> set k" by (rule Find_sound)
  with assms show ?thesis by blast
qed

text \<open>The scan misses no reference whose key is free of newlines.\<close>

lemma lazy_group_complete:
  "newline \<notin> set k \<Longrightarrow> lazy_group (k @ backtick # post) \<noteq> None"
  by (induction k) (auto split: option.splits)

lemma Find_complete:
  "newline \<notin> set k \<Longrightarrow> FindStringSubmatch (pre @ ref k @ post) \<noteq> []"
proof (induction pre)
  case Nil
  then have "match_here (ref k @ post) \<noteq> None"
    by (simp add: match_here_def ref_def lazy_group_complete)
  moreover obtain c cs where "ref k @ post = c # cs"
    by (cases "ref k @ post") (auto simp: ref_def)
  ultimately show ?case by (auto split: option.splits)
next
  case (Cons c pre)
  then show ?case by (auto split: option.splits)
qed

lemma no_match_no_reference:
  assumes "FindStringSubmatch data = []"
  shows "\<forall>pre k post. data = pre @ ref k @ post \<longrightarrow> newline \<in> set k"
  using assms Find_complete by blast

text \<open>The plain cases: nothing but the reference holds a backtick, or nothing does.\<close>

lemma first_after_plain:
  assumes "backtick \<notin> set pre" "pre @ xs = pre1 @ ref k1 @ post1"
  shows "length pre \<le> length pre1"
proof (rule ccontr)
  assume "\<not> length pre \<le> length pre1"
  then have l: "length pre1 < length pre" by simp
  have "(pre1 @ ref k1 @ post1) ! length pre1 = backtick"
    by (simp add: ref_def nth_append)
  with assms(2) have "(pre @ xs) ! length pre1 = backtick" by simp
  with l have "pre ! length pre1 = backtick" by (simp add: nth_append)
  with l assms(1) show False by (metis nth_mem)
qed

lemma resolve_reference:
  assumes "backtick \<notin> set pre" "backtick \<notin> set k" "newline \<notin> set k" "k \<noteq> []"
  shows "ReplaceScopeVariables scp (pre @ ref k @ post) = pre @ map_index scp k @ post"
  using resolve_first [OF assms(2,3), of pre post scp] first_after_plain [OF assms(1)] assms(4)
  by auto

lemma resolve_empty_key:
  assumes "backtick \<notin> set pre"
  shows "ReplaceScopeVariables scp (pre @ ref [] @ post) = pre @ ref [] @ post"
  using resolve_first [of "[]" pre post scp] first_after_plain [OF assms]
  by auto

lemma resolve_no_reference:
  assumes "\<forall>pre k post. data \<noteq> pre @ ref k @ post"
  shows "ReplaceScopeVariables scp data = data"
  using assms by (intro resolve_none) blast

lemma no_backtick_no_reference:
  "backtick \<notin> set data \<Longrightarrow> \<forall>pre k post. data \<noteq> pre @ ref k @ post"
  by (auto simp: ref_def)

lemma resolve_plain:
  "backtick \<notin> set data \<Longrightarrow> ReplaceScopeVariables scp data = data"
  by (rule resolve_no_reference) (rule no_backtick_no_reference)

section \<open>Claims about the scope store\<close>

text \<open>
  Claim C3, as the code has it. Call a reference \<open>`##key`\<close> the first one of a text when
  no reference with a newline-free key starts before it. \<open>ReplaceScopeVariables\<close>
  replaces the first reference, and nothing else, by the value stored under its key, and
  by the empty string when the key is not stored, provided the key is not empty and holds
  neither a backtick nor a newline. When the first reference has an empty key, \<open>`##`\<close>,
  the text comes back unchanged, whatever follows. A text without a reference whose key
  is free of newlines comes back unchanged. After \<open>StoreScopeData("k", "v")\<close> the text
  \<open>prefix `##k` suffix\<close> resolves to \<open>prefix v suffix\<close>, and with \<open>k\<close> not stored to
  \<open>prefix  suffix\<close>.
\<close>

theorem resolve_first_reference:
  "(backtick \<notin> set k \<and> newline \<notin> set k \<and> k \<noteq> []
      \<and> (\<forall>pre1 k1 post1. pre @ ref k @ post = pre1 @ ref k1 @ post1 \<and> newline \<notin> set k1
            \<longrightarrow> length pre \<le> length pre1) \<longrightarrow>
      ReplaceScopeVariables scp (pre @ ref k @ post) =
        pre @ (case scp k of Some v \<Rightarrow> v | None \<Rightarrow> []) @ post)
   \<and> ((\<forall>pre1 k1 post1. pre @ ref [] @ post = pre1 @ ref k1 @ post1 \<and> newline \<notin> set k1
            \<longrightarrow> length pre \<le> length pre1) \<longrightarrow>
        ReplaceScopeVariables scp (pre @ ref [] @ post) = pre @ ref [] @ post)
   \<and> ((\<forall>pre1 k1 post1. data = pre1 @ ref k1 @ post1 \<longrightarrow> newline \<in> set k1) \<longrightarrow>
        ReplaceScopeVariables scp data = data)
   \<and> ReplaceScopeVariables (scope (snd (StoreScopeData ''k'' ''v'' ctx))) ''prefix `##k` suffix''
        = ''prefix v suffix''
   \<and> (scope ctx ''k'' = None \<longrightarrow>
        ReplaceScopeVariables (scope ctx) ''prefix `##k` suffix'' = ''prefix  suffix'')"
proof -
  have e: "''prefix `##k` suffix'' = ''prefix '' @ ref ''k'' @ '' suffix''"
    by (simp add: ref_def backtick_def)
  have r: "ReplaceScopeVariables m (''prefix '' @ ref ''k'' @ '' suffix'')
             = ''prefix '' @ map_index m ''k'' @ '' suffix''" for m
    by (rule resolve_reference) (simp_all add: backtick_def newline_def)
  have stored: "ReplaceScopeVariables (scope (snd (StoreScopeData ''k'' ''v'' ctx)))
                  ''prefix `##k` suffix'' = ''prefix v suffix''"
    unfolding e r by (simp add: map_index_def StoreScopeData_def)
  have unset: "scope ctx ''k'' = None \<Longrightarrow>
               ReplaceScopeVariables (scope ctx) ''prefix `##k` suffix'' = ''prefix  suffix''"
    unfolding e r by (simp add: map_index_def)
  have first: "backtick \<notin> set k \<Longrightarrow> newline \<notin> set k \<Longrightarrow> k \<noteq> [] \<Longrightarrow>
      \<forall>pre1 k1 post1. pre @ ref k @ post = pre1 @ ref k1 @ post1 \<and> newline \<notin> set k1
            \<longrightarrow> length pre \<le> length pre1 \<Longrightarrow>
      ReplaceScopeVariables scp (pre @ ref k @ post) =
        pre @ (case scp k of Some v \<Rightarrow> v | None \<Rightarrow> []) @ post"
    using resolve_first [of k pre post scp] by (simp add: map_index_def)
  have empty: "\<forall>pre1 k1 post1. pre @ ref [] @ post = pre1 @ ref k1 @ post1 \<and> newline \<notin> set k1
            \<longrightarrow> length pre \<le> length pre1 \<Longrightarrow>
        ReplaceScopeVariables scp (pre @ ref [] @ post) = pre @ ref [] @ post"
    using resolve_first [of "[]" pre post scp] by simp
  have none: "\<forall>pre1 k1 post1. data = pre1 @ ref k1 @ post1 \<longrightarrow> newline \<in> set k1 \<Longrightarrow>
        ReplaceScopeVariables scp data = data"
    by (rule resolve_none)
  from first empty none stored unset show ?thesis by blast
qed

text \<open>
  An instance of C3 with two references to a key (the second one stays), once stored and
  once not, one with an empty key first, one whose only key holds a newline, and the
  example of the unset key.
\<close>

theorem resolve_first_reference_witness:
  "backtick \<notin> set ''user'' \<and> newline \<notin> set ''user'' \<and> ''user'' \<noteq> []
   \<and> ReplaceScopeVariables [''user'' \<mapsto> ''42''] (''id='' @ ref ''user'' @ ''&x='' @ ref ''user'')
       = ''id=42&x='' @ ref ''user''
   \<and> ReplaceScopeVariables Map.empty (''id='' @ ref ''user'' @ ''&x='' @ ref ''user'')
       = ''id=&x='' @ ref ''user''
   \<and> ReplaceScopeVariables [''user'' \<mapsto> ''42''] (''id='' @ ref [] @ ref ''user'')
       = ''id='' @ ref [] @ ref ''user''
   \<and> ReplaceScopeVariables [''a'' \<mapsto> ''1''] (''`##a'' @ [newline] @ ''b`'')
       = ''`##a'' @ [newline] @ ''b`''
   \<and> scope (New ''u'') ''k'' = None
   \<and> ReplaceScopeVariables (scope (New ''u'')) ''prefix `##k` suffix'' = ''prefix  suffix''"
proof -
  have side: "backtick \<notin> set ''user'' \<and> newline \<notin> set ''user'' \<and> ''user'' \<noteq> []"
    by (simp add: backtick_def newline_def)
  have p: "backtick \<notin> set ''id=''" by (simp add: backtick_def)
  have first: "\<forall>pre1 k1 post1. ''id='' @ ref ''user'' @ ''&x='' @ ref ''user'' = pre1 @ ref k1 @ post1
          \<and> newline \<notin> set k1 \<longrightarrow> length ''id='' \<le> length pre1"
    using first_after_plain [OF p] by blast
  have first_empty: "\<forall>pre1 k1 post1. ''id='' @ ref [] @ ref ''user'' = pre1 @ ref k1 @ post1
          \<and> newline \<notin> set k1 \<longrightarrow> length ''id='' \<le> length pre1"
    using first_after_plain [OF p] by blast
  have "FindStringSubmatch (''`##a'' @ [newline] @ ''b`'') = []"
    by (simp add: match_here_def backtick_def newline_def)
  then have none: "\<forall>pre1 k1 post1. ''`##a'' @ [newline] @ ''b`'' = pre1 @ ref k1 @ post1
          \<longrightarrow> newline \<in> set k1"
    by (rule no_match_no_reference)
  have u: "scope (New ''u'') ''k'' = None" by (simp add: New_def)
  show ?thesis
    using side first first_empty none u
      resolve_first_reference [of "''user''" "''id=''" "''&x='' @ ref ''user''"
        "[''user'' \<mapsto> ''42'']" "''`##a'' @ [newline] @ ''b`''" "New ''u''"]
      resolve_first_reference [of "''user''" "''id=''" "''&x='' @ ref ''user''"
        "Map.empty" "''`##a'' @ [newline] @ ''b`''" "New ''u''"]
      resolve_first_reference [of "''user''" "''id=''" "ref ''user''"
        "[''user'' \<mapsto> ''42'']" "''`##a'' @ [newline] @ ''b`''" "New ''u''"]
      resolve_first_reference [of "''user''" "''id=''" "ref ''user''"
        "[''a'' \<mapsto> ''1'']" "''`##a'' @ [newline] @ ''b`''" "New ''u''"]
    by simp
qed

text \<open>
  Where C3 as stated fails: in \<open>`##` `##k`\<close> with \<open>k\<close> stored, the guard
  \<open>len(matches[1]) < 1\<close> returns the text as it came. Neither the reference to \<open>k\<close> is
  replaced by \<open>v\<close>, nor the reference with the empty key by the empty string.
\<close>

theorem resolve_empty_key_counterexample:
  "ReplaceScopeVariables [''k'' \<mapsto> ''v''] ''`##` `##k`'' = ''`##` `##k`''
   \<and> ReplaceScopeVariables [''k'' \<mapsto> ''v''] ''`##` `##k`'' \<noteq> ''`##` v''
   \<and> ReplaceScopeVariables [''k'' \<mapsto> ''v''] ''`##` `##k`'' \<noteq> '' `##k`''"
proof -
  have e: "''`##` `##k`'' = [] @ ref [] @ '' `##k`''"
    by (simp add: ref_def backtick_def)
  have "ReplaceScopeVariables [''k'' \<mapsto> ''v''] ''`##` `##k`'' = ''`##` `##k`''"
    unfolding e by (rule resolve_empty_key) simp
  then show ?thesis by simp
qed

text \<open>
  Claim C8. On a text \<open>x\<close> in which no reference \<open>`##...`\<close> occurs, resolving twice is
  resolving once: \<open>resolve (resolve x) = resolve x\<close>.
\<close>

theorem resolve_idempotent_without_reference:
  assumes "\<forall>pre k post. x \<noteq> pre @ ref k @ post"
  shows "ReplaceScopeVariables scp (ReplaceScopeVariables scp x) = ReplaceScopeVariables scp x"
  using assms by (simp add: resolve_no_reference)

text \<open>
  An instance of C8, in a scope whose only value is itself a reference.
\<close>

theorem resolve_idempotent_without_reference_witness:
  "(\<forall>pre k post. ''Bearer token'' \<noteq> pre @ ref k @ post)
   \<and> ReplaceScopeVariables [''k'' \<mapsto> ''`##k`''] (ReplaceScopeVariables [''k'' \<mapsto> ''`##k`''] ''Bearer token'')
        = ReplaceScopeVariables [''k'' \<mapsto> ''`##k`''] ''Bearer token''"
proof -
  have h: "\<forall>pre k post. ''Bearer token'' \<noteq> pre @ ref k @ post"
    by (rule no_backtick_no_reference) (simp add: backtick_def)
  from resolve_idempotent_without_reference [OF h] h show ?thesis by blast
qed

text \<open>
  Claim C10. For a key that was never stored, \<open>TheScopeVariableShouldHaveValue\<close> reads the
  empty string: it succeeds exactly when the expected value is the empty string, and
  otherwise fails with the ordinary error of a mismatch, whose actual value is empty.
\<close>

theorem scope_variable_missing_key:
  assumes "scope ctx scopeKeyName = None"
  shows "(TheScopeVariableShouldHaveValue scopeKeyName expectedValue ctx = Return None
            \<longleftrightarrow> expectedValue = [])
         \<and> (expectedValue \<noteq> [] \<longrightarrow>
              TheScopeVariableShouldHaveValue scopeKeyName expectedValue ctx
                = Return (Some (ErrScopeValue expectedValue [])))"
  using assms by (auto simp: TheScopeVariableShouldHaveValue_def map_index_def)

text \<open>An instance of C10: the key \<open>other\<close> in a scope that holds \<open>k\<close> only.\<close>

theorem scope_variable_missing_key_witness:
  "scope sample_ctx ''other'' = None
   \<and> TheScopeVariableShouldHaveValue ''other'' [] sample_ctx = Return None
   \<and> TheScopeVariableShouldHaveValue ''other'' ''x'' sample_ctx
       = Return (Some (ErrScopeValue ''x'' []))"
proof -
  have h: "scope sample_ctx ''other'' = None"
    by (simp add: sample_ctx_def New_def)
  from scope_variable_missing_key [OF h, of "[]"] scope_variable_missing_key [OF h, of "''x''"] h
  show ?thesis by simp
qed

section \<open>Claims about the lifecycle and the accumulators\<close>

text \<open>
  What \<open>reset\<close> does to each field: the two accumulators and the two captured values are
  cleared; the scope store and the configuration stay.
\<close>

lemma reset_clears_accumulators:
  "headers (reset ctx) = Map.empty \<and> queryParams (reset ctx) = Map.empty
   \<and> lastRequest (reset ctx) = None \<and> lastResponse (reset ctx) = None
   \<and> scope (reset ctx) = scope ctx \<and> baseURL (reset ctx) = baseURL ctx
   \<and> jSONSchemasPath (reset ctx) = jSONSchemasPath ctx \<and> debug (reset ctx) = debug ctx"
  by (simp add: reset_def)

text \<open>
  Claim C2 says that \<open>reset\<close> clears the scope store too. It does not: a variable stored
  before \<open>reset\<close> is still there after it.
\<close>

theorem reset_keeps_scope:
  "scope (reset (snd (StoreScopeData ''k'' ''v'' (New ''https://example.com'')))) ''k'' = Some ''v''
   \<and> scope (reset (snd (StoreScopeData ''k'' ''v'' (New ''https://example.com'')))) \<noteq> Map.empty"
proof -
  have "scope (reset (snd (StoreScopeData ''k'' ''v'' (New ''https://example.com'')))) ''k'' = Some ''v''"
    by (simp add: reset_def StoreScopeData_def New_def)
  then show ?thesis by auto
qed

lemma rows_map_add:
  "m(k \<mapsto> v) ++ map_of (rev kvs) = m ++ map_of (rev ((k, v) # kvs))"
proof -
  have "m(k \<mapsto> v) = m ++ [k \<mapsto> v]" by simp
  then show ?thesis by (simp only: rev.simps map_of_append map_of.simps fst_conv snd_conv map_add_assoc)
qed

lemma ISetHeadersTo_rows:
  "\<forall>row \<in> set dt. 2 \<le> length row \<Longrightarrow>
   ISetHeadersTo dt ctx =
     (Return None,
      ctx\<lparr>headers := headers ctx ++
               map_of (rev (map (\<lambda>row. (row ! 0, ReplaceScopeVariables (scope ctx) (row ! 1))) dt))\<rparr>)"
proof (induction dt arbitrary: ctx)
  case Nil
  then show ?case by simp
next
  case (Cons row dt)
  then show ?case
    by (simp add: rows_map_add del: rev.simps map_of.simps)
qed

lemma ISetQueryParamsTo_rows:
  "\<forall>row \<in> set dt. 2 \<le> length row \<Longrightarrow>
   ISetQueryParamsTo dt ctx =
     (Return None,
      ctx\<lparr>queryParams := queryParams ctx ++
               map_of (rev (map (\<lambda>row. (row ! 0, ReplaceScopeVariables (scope ctx) (row ! 1))) dt))\<rparr>)"
proof (induction dt arbitrary: ctx)
  case Nil
  then show ?case by simp
next
  case (Cons row dt)
  then show ?case
    by (simp add: rows_map_add del: rev.simps map_of.simps)
qed

text \<open>
  Claim C5. \<open>ISetHeaderWithValue\<close> stores the value as it is given. \<open>ISetHeadersTo\<close>
  stores, for each row of a table whose rows have two cells, the value after scope
  substitution, a later row overriding an earlier one for the same name.
  \<open>ISetQueryParamWithValue\<close> and \<open>ISetQueryParamsTo\<close> both store the value after scope
  substitution.
\<close>

theorem header_and_query_substitution:
  "ISetHeaderWithValue name val ctx = (Return None, ctx\<lparr>headers := (headers ctx)(name \<mapsto> val)\<rparr>)
   \<and> ISetQueryParamWithValue name val ctx =
       (Return None,
        ctx\<lparr>queryParams := (queryParams ctx)(name \<mapsto> ReplaceScopeVariables (scope ctx) val)\<rparr>)
   \<and> ((\<forall>row \<in> set dt. 2 \<le> length row) \<longrightarrow>
        ISetHeadersTo dt ctx =
          (Return None,
           ctx\<lparr>headers := headers ctx ++
              map_of (rev (map (\<lambda>row. (row ! 0, ReplaceScopeVariables (scope ctx) (row ! 1))) dt))\<rparr>)
        \<and> ISetQueryParamsTo dt ctx =
          (Return None,
           ctx\<lparr>queryParams := queryParams ctx ++
              map_of (rev (map (\<lambda>row. (row ! 0, ReplaceScopeVariables (scope ctx) (row ! 1))) dt))\<rparr>))"
  by (simp add: ISetHeaderWithValue_def ISetQueryParamWithValue_def ISetHeadersTo_rows
        ISetQueryParamsTo_rows)

lemma resolve_ref_k: "ReplaceScopeVariables [''k'' \<mapsto> ''v''] ''`##k`'' = ''v''"
proof -
  have "ReplaceScopeVariables [''k'' \<mapsto> ''v''] ([] @ ref ''k'' @ []) = [] @ map_index [''k'' \<mapsto> ''v''] ''k'' @ []"
    by (rule resolve_reference) (simp_all add: backtick_def newline_def)
  then show ?thesis by (simp add: ref_def backtick_def map_index_def)
qed

text \<open>
  An instance of C5 with \<open>k\<close> stored as \<open>v\<close>: the single-header step keeps \<open>`##k`\<close>, the
  table step and both query steps store \<open>v\<close>.
\<close>

theorem header_and_query_substitution_witness:
  "2 \<le> length [''X-Id'', ''`##k`''] \<and> 2 \<le> length [''Accept'', ''text/plain'']
   \<and> headers (snd (ISetHeaderWithValue ''X-Id'' ''`##k`'' sample_ctx)) ''X-Id'' = Some ''`##k`''
   \<and> queryParams (snd (ISetQueryParamWithValue ''id'' ''`##k`'' sample_ctx)) ''id'' = Some ''v''
   \<and> fst (ISetHeadersTo [[''X-Id'', ''`##k`''], [''Accept'', ''text/plain'']] sample_ctx) = Return None
   \<and> headers (snd (ISetHeadersTo [[''X-Id'', ''`##k`''], [''Accept'', ''text/plain'']] sample_ctx)) ''X-Id''
       = Some ''v''
   \<and> queryParams (snd (ISetQueryParamsTo [[''X-Id'', ''`##k`''], [''Accept'', ''text/plain'']] sample_ctx)) ''X-Id''
       = Some ''v''"
proof -
  have s: "scope sample_ctx = [''k'' \<mapsto> ''v'']"
    by (simp add: sample_ctx_def)
  have p: "ReplaceScopeVariables [''k'' \<mapsto> ''v''] ''text/plain'' = ''text/plain''"
    by (rule resolve_plain) (simp add: backtick_def)
  show ?thesis
    using header_and_query_substitution
      [of "''X-Id''" "''`##k`''" sample_ctx "[[''X-Id'', ''`##k`''], [''Accept'', ''text/plain'']]"]
      header_and_query_substitution
      [of "''id''" "''`##k`''" sample_ctx "[[''X-Id'', ''`##k`''], [''Accept'', ''text/plain'']]"]
    by (simp add: s p resolve_ref_k)
qed

section \<open>Claims about the assertion steps\<close>

lemma parse_expected_coerce:
  "TypeOf_Kind actual = Some k \<Longrightarrow> parse_expected rt k text = coerce_expected rt actual text"
  by (cases actual) (auto simp: parse_expected_def coerce_expected_def)

lemma value_check_unfold:
  assumes "lastResponse ctx = Some r" "json_Unmarshal rt (Body r) = Inr doc"
    "jsonpath_Get rt p doc = Inr actual"
  shows "TheJSONPathShouldHaveValue rt p e ctx =
     (case TypeOf_Kind actual of
        None \<Rightarrow> Panic NilDereference
      | Some k \<Rightarrow>
          (case coerce_expected rt actual (ReplaceScopeVariables (scope ctx) e) of
             Inl err \<Rightarrow> Return (Some err)
           | Inr v \<Rightarrow>
               (case iface_eq actual v of
                  None \<Rightarrow> Panic Uncomparable
                | Some eq \<Rightarrow> if eq then Return None else Return (Some (ErrJsonPathValue v actual)))))"
  using assms
  by (auto simp: TheJSONPathShouldHaveValue_def Let_def parse_expected_coerce
      split: option.splits sum.splits)








text \<open>
  The two integer cases parse the expected text with \<open>ParseInt(s, 10, 64)\<close>, an \<open>int64\<close>.
  An actual value of type \<open>int32\<close> has another dynamic type, so the step cannot succeed on
  it. The JSON decoder yields no \<open>int32\<close>; numbers arrive as \<open>float64\<close>.
\<close>

lemma value_check_int32:
  assumes "lastResponse ctx = Some r" "json_Unmarshal rt (Body r) = Inr doc"
    "jsonpath_Get rt p doc = Inr (GInt32 i)"
  shows "TheJSONPathShouldHaveValue rt p e ctx \<noteq> Return None"
  by (cases "strconv_ParseInt rt (ReplaceScopeVariables (scope ctx) e)")
    (auto simp: value_check_unfold [OF assms] coerce_expected_def)




lemma ValueOf_Kind_Slice: "ValueOf_Kind v = reflect_Slice \<longleftrightarrow> (\<exists>s. v = GSlice s)"
  by (cases v) (simp_all add: ValueOf_Kind_def)

lemma count_check_unfold:
  assumes "lastResponse ctx = Some r" "json_Unmarshal rt (Body r) = Inr doc"
    "jsonpath_Get rt p doc = Inr val"
  shows "TheJSONPathHaveCount rt p n ctx =
     (if ValueOf_Kind val \<noteq> reflect_Slice then Return (Some (ErrNotAnArray p val))
      else if reflect_Len val \<noteq> n then Return (Some (ErrCount val n (reflect_Len val)))
      else Return None)"
  using assms by (simp add: TheJSONPathHaveCount_def)

text \<open>
  Claim C7. With a response captured, its body decoded and the path evaluated,
  \<open>TheJSONPathHaveCount\<close> fails with an error that carries the path and the actual
  value when that value is not a slice; for a slice it succeeds exactly when the length
  is the expected count. On a root-level array of two elements, path \<open>$\<close> and count
  \<open>2\<close>, it succeeds.
\<close>

theorem json_path_count_check:
  assumes "lastResponse ctx = Some r" "json_Unmarshal rt (Body r) = Inr doc"
    "jsonpath_Get rt p doc = Inr val"
  shows "((\<forall>s. val \<noteq> GSlice s) \<longrightarrow>
            TheJSONPathHaveCount rt p n ctx = Return (Some (ErrNotAnArray p val)))
       \<and> (\<forall>s. val = GSlice s \<longrightarrow>
            (TheJSONPathHaveCount rt p n ctx = Return None \<longleftrightarrow> int (length s) = n)
            \<and> (int (length s) \<noteq> n \<longrightarrow>
                 TheJSONPathHaveCount rt p n ctx
                   = Return (Some (ErrCount val n (int (length s))))))
       \<and> (p = ''$'' \<and> doc = GSlice [x, y] \<and> val = doc \<and> n = 2 \<longrightarrow>
            TheJSONPathHaveCount rt p n ctx = Return None)"
  unfolding count_check_unfold [OF assms] by (auto simp: ValueOf_Kind_Slice)

text \<open>
  An instance of C7: the body \<open>[1,2]\<close> with counts 2 and 3, and the string member
  \<open>$.a\<close> of the sample document.
\<close>

theorem json_path_count_check_witness:
  "lastResponse (sample_ctx\<lparr>lastResponse := Some (sample_response ''[1,2]'')\<rparr>)
     = Some (sample_response ''[1,2]'')
   \<and> json_Unmarshal sample_runtime (Body (sample_response ''[1,2]'')) = Inr sample_array
   \<and> jsonpath_Get sample_runtime ''$'' sample_array = Inr sample_array
   \<and> sample_array = GSlice [GFloat64 0x3FF0000000000000, GFloat64 0x4000000000000000]
   \<and> TheJSONPathHaveCount sample_runtime ''$'' 2
        (sample_ctx\<lparr>lastResponse := Some (sample_response ''[1,2]'')\<rparr>) = Return None
   \<and> TheJSONPathHaveCount sample_runtime ''$'' 3
        (sample_ctx\<lparr>lastResponse := Some (sample_response ''[1,2]'')\<rparr>)
        = Return (Some (ErrCount sample_array 3 2))
   \<and> lastResponse (sample_ctx\<lparr>lastResponse := Some (sample_response sample_body)\<rparr>)
        = Some (sample_response sample_body)
   \<and> json_Unmarshal sample_runtime (Body (sample_response sample_body)) = Inr sample_doc
   \<and> jsonpath_Get sample_runtime ''$.a'' sample_doc = Inr (GString ''a'')
   \<and> (\<forall>s. GString ''a'' \<noteq> GSlice s)
   \<and> TheJSONPathHaveCount sample_runtime ''$.a'' 1
        (sample_ctx\<lparr>lastResponse := Some (sample_response sample_body)\<rparr>)
        = Return (Some (ErrNotAnArray ''$.a'' (GString ''a'')))"
proof -
  let ?c1 = "sample_ctx\<lparr>lastResponse := Some (sample_response ''[1,2]'')\<rparr>"
  let ?c2 = "sample_ctx\<lparr>lastResponse := Some (sample_response sample_body)\<rparr>"
  have l1: "lastResponse ?c1 = Some (sample_response ''[1,2]'')" by simp
  have l2: "lastResponse ?c2 = Some (sample_response sample_body)" by simp
  have u1: "json_Unmarshal sample_runtime (Body (sample_response ''[1,2]'')) = Inr sample_array"
    by (simp add: sample_response_def sample_runtime_def sample_body_def)
  have u2: "json_Unmarshal sample_runtime (Body (sample_response sample_body)) = Inr sample_doc"
    by (simp add: sample_response_def sample_runtime_def)
  have g1: "jsonpath_Get sample_runtime ''$'' sample_array = Inr sample_array"
    by (simp add: sample_runtime_def)
  have g2: "jsonpath_Get sample_runtime ''$.a'' sample_doc = Inr (GString ''a'')"
    by (simp add: sample_runtime_def sample_doc_def)
  have arr: "sample_array = GSlice [GFloat64 0x3FF0000000000000, GFloat64 0x4000000000000000]"
    by (simp add: sample_array_def)
  show ?thesis
    using json_path_count_check [OF l1 u1 g1, of 2 "GFloat64 0x3FF0000000000000" "GFloat64 0x4000000000000000"]
      json_path_count_check [OF l1 u1 g1, of 3 "GFloat64 0x3FF0000000000000" "GFloat64 0x4000000000000000"]
      json_path_count_check [OF l2 u2 g2, of 1 GNil GNil]
      l1 l2 u1 u2 g1 g2 arr
    by auto
qed

text \<open>
  Claim C1, as the code has it. No assertion step tests \<open>lastResponse\<close> for nil. With
  no response captured, ten of the steps panic with a nil-pointer dereference where they
  first read \<open>ctx.lastResponse\<close>, and return no error. The schema step first looks for
  the schema file: it returns the error of a missing or unreadable file, and panics in
  the same way once the file is read.
\<close>

theorem assertions_without_response:
  assumes "lastResponse ctx = None"
  shows "TheResponseCodeShouldBe statusCode ctx = Panic NilDereference
       \<and> TheResponseShouldBeAValidJSON rt ctx = Panic NilDereference
       \<and> TheJSONPathShouldHaveValue rt pathExpr expectedValue ctx = Panic NilDereference
       \<and> TheJSONPathShouldMatch rt pathExpr pattern ctx = Panic NilDereference
       \<and> TheJSONPathShouldBePresent rt pathExpr ctx = Panic NilDereference
       \<and> TheJSONPathHaveCount rt pathExpr expectedCount ctx = Panic NilDereference
       \<and> TheResponseShouldMatchJSON rt body ctx = Panic NilDereference
       \<and> TheResponseBodyShouldContain s ctx = Panic NilDereference
       \<and> TheResponseBodyShouldMatch rt pattern ctx = Panic NilDereference
       \<and> TheResponseHeaderShouldHaveValue name expectedValue ctx = Panic NilDereference
       \<and> TheResponseShouldMatchJsonSchema rt path ctx =
           (if os_IsNotExist_Stat rt (jSONSchemasPath ctx @ ''/'' @ strings_Trim path ''/'')
            then Return (Some (ErrSchemaMissing (jSONSchemasPath ctx @ ''/'' @ strings_Trim path ''/'')))
            else (case ioutil_ReadFile rt (jSONSchemasPath ctx @ ''/'' @ strings_Trim path ''/'') of
                    Inl err \<Rightarrow> Return (Some (ErrSchemaOpen err))
                  | Inr schemaContents \<Rightarrow> Panic NilDereference))"
  using assms
  by (simp add: TheResponseCodeShouldBe_def TheResponseShouldBeAValidJSON_def
      TheJSONPathShouldHaveValue_def TheJSONPathShouldMatch_def TheJSONPathShouldBePresent_def
      TheJSONPathHaveCount_def TheResponseShouldMatchJSON_def TheResponseBodyShouldContain_def
      TheResponseBodyShouldMatch_def TheResponseHeaderShouldHaveValue_def
      TheResponseShouldMatchJsonSchema_def Let_def split: sum.splits)

text \<open>An instance of C1 on a fresh context, where no schema file exists.\<close>

theorem assertions_without_response_witness:
  "lastResponse (New ''https://example.com'') = None
   \<and> TheResponseShouldBeAValidJSON sample_runtime (New ''https://example.com'') = Panic NilDereference
   \<and> TheJSONPathShouldHaveValue sample_runtime ''$.a'' ''a'' (New ''https://example.com'')
       = Panic NilDereference
   \<and> TheResponseBodyShouldContain ''hello'' (New ''https://example.com'') = Panic NilDereference
   \<and> TheResponseHeaderShouldHaveValue ''Content-Type'' ''text/plain'' (New ''https://example.com'')
       = Panic NilDereference
   \<and> TheResponseShouldMatchJsonSchema sample_runtime ''/person.json'' (New ''https://example.com'')
       = Return (Some (ErrSchemaMissing ''schemas/person.json''))"
proof -
  have h: "lastResponse (New ''https://example.com'') = None" by (simp add: New_def)
  have t: "strings_Trim ''/person.json'' ''/'' = ''person.json''"
    by (simp add: strings_Trim_def)
  have p: "jSONSchemasPath (New ''https://example.com'') = ''schemas''"
    by (simp add: New_def defaultSchemasPath_def)
  have m: "os_IsNotExist_Stat sample_runtime x" for x by (simp add: sample_runtime_def)
  from assertions_without_response [OF h, of 200 sample_runtime "''$.a''" "''a''" "''a''" 1
      "''{}''" "''hello''" "''Content-Type''" "''/person.json''"]
    assertions_without_response [OF h, of 200 sample_runtime "''$.a''" "''text/plain''" "''a''" 1
      "''{}''" "''hello''" "''Content-Type''" "''/person.json''"]
    h t p m
  show ?thesis by simp
qed

text \<open>
  Where C1 as stated fails: on a fresh context \<open>TheResponseCodeShouldBe\<close> does not
  return an error, it panics.
\<close>

theorem status_code_without_response_counterexample:
  "TheResponseCodeShouldBe 200 (New ''https://example.com'') = Panic NilDereference"
  by (simp add: TheResponseCodeShouldBe_def New_def)

section \<open>Claims about the sending steps\<close>

lemma header_loop_nil:
  "header_loop rt hs None = (if hs = [] then Inr None else Inl NilDereference)"
  by (cases hs) auto

text \<open>
  Claim C9. When \<open>http.NewRequest\<close> fails in \<open>ISendRequestToWithBody\<close> and the
  \<open>range\<close> over the headers visits exactly the entries of the accumulator, the step
  returns the error of \<open>NewRequest\<close> if the accumulator is empty, and otherwise panics
  with a nil-pointer dereference, because the headers are set on the request before the
  error is looked at.
\<close>

theorem body_request_construction_failure:
  assumes "http_NewRequest rt method (baseURL ctx @ uri)
             (ReplaceScopeVariables (scope ctx) requestBody) = Inl e"
    and "set (map_range rt (headers ctx)) = Map.graph (headers ctx)"
  shows "ISendRequestToWithBody rt method uri requestBody ctx =
           (if headers ctx = Map.empty then (Return (Some e), ctx)
            else (Panic NilDereference, ctx))"
proof -
  have "map_range rt (headers ctx) = [] \<longleftrightarrow> headers ctx = Map.empty"
  proof
    assume "map_range rt (headers ctx) = []"
    with assms(2) have "Map.graph (headers ctx) = {}" by simp
    then show "headers ctx = Map.empty"
      by (auto simp: Map.graph_def intro!: ext)
  next
    assume "headers ctx = Map.empty"
    with assms(2) show "map_range rt (headers ctx) = []" by simp
  qed
  with assms(1) show ?thesis
    by (simp add: ISendRequestToWithBody_def Let_def header_loop_nil)
qed

text \<open>
  An instance of C9: a method that \<open>NewRequest\<close> refuses, once with no header and once
  with one.
\<close>

theorem body_request_construction_failure_witness:
  "http_NewRequest sample_runtime ''BAD METHOD'' (baseURL sample_ctx @ ''/items'')
     (ReplaceScopeVariables (scope sample_ctx) ''{}'') = Inl (External ''invalid method'')
   \<and> set (map_range sample_runtime (headers sample_ctx)) = Map.graph (headers sample_ctx)
   \<and> headers sample_ctx = Map.empty
   \<and> ISendRequestToWithBody sample_runtime ''BAD METHOD'' ''/items'' ''{}'' sample_ctx
       = (Return (Some (External ''invalid method'')), sample_ctx)
   \<and> http_NewRequest sample_runtime ''BAD METHOD''
       (baseURL (sample_ctx\<lparr>headers := [''Accept'' \<mapsto> ''text/plain'']\<rparr>) @ ''/items'')
       (ReplaceScopeVariables (scope (sample_ctx\<lparr>headers := [''Accept'' \<mapsto> ''text/plain'']\<rparr>)) ''{}'')
       = Inl (External ''invalid method'')
   \<and> set (map_range sample_runtime (headers (sample_ctx\<lparr>headers := [''Accept'' \<mapsto> ''text/plain'']\<rparr>)))
       = Map.graph (headers (sample_ctx\<lparr>headers := [''Accept'' \<mapsto> ''text/plain'']\<rparr>))
   \<and> headers (sample_ctx\<lparr>headers := [''Accept'' \<mapsto> ''text/plain'']\<rparr>) \<noteq> Map.empty
   \<and> ISendRequestToWithBody sample_runtime ''BAD METHOD'' ''/items'' ''{}''
       (sample_ctx\<lparr>headers := [''Accept'' \<mapsto> ''text/plain'']\<rparr>)
       = (Panic NilDereference, sample_ctx\<lparr>headers := [''Accept'' \<mapsto> ''text/plain'']\<rparr>)"
proof -
  let ?c = "sample_ctx\<lparr>headers := [''Accept'' \<mapsto> ''text/plain'']\<rparr>"
  have n1: "http_NewRequest sample_runtime ''BAD METHOD'' (baseURL sample_ctx @ ''/items'')
     (ReplaceScopeVariables (scope sample_ctx) ''{}'') = Inl (External ''invalid method'')"
    by (simp add: sample_runtime_def)
  have n2: "http_NewRequest sample_runtime ''BAD METHOD'' (baseURL ?c @ ''/items'')
     (ReplaceScopeVariables (scope ?c) ''{}'') = Inl (External ''invalid method'')"
    by (simp add: sample_runtime_def)
  have h1: "headers sample_ctx = Map.empty"
    by (simp add: sample_ctx_def New_def)
  have r1: "set (map_range sample_runtime (headers sample_ctx)) = Map.graph (headers sample_ctx)"
    by (simp add: h1 sample_runtime_def)
  have r2: "set (map_range sample_runtime (headers ?c)) = Map.graph (headers ?c)"
    by (auto simp: sample_runtime_def Map.graph_def split: if_splits)
  have h2: "headers ?c \<noteq> Map.empty" by simp
  show ?thesis
    using body_request_construction_failure [OF n1 r1] body_request_construction_failure [OF n2 r2]
      n1 n2 r1 r2 h1 h2
    by simp
qed







end
